theory Spec2Isabelle
  imports Main
begin

section \<open>Text, whitespace and the values the shell handles\<close>

text \<open>
  A Python \<open>str\<close> that holds user text is a list of Unicode code points. Language
  codes, model labels and credentials are ASCII and are kept as \<open>string\<close>.
\<close>

type_synonym ustr = "nat list"

text \<open>The code points that \<open>str.strip()\<close> removes (those with \<open>str.isspace()\<close>).\<close>

definition is_space :: "nat \<Rightarrow> bool" where
  "is_space c \<longleftrightarrow>
     (9 \<le> c \<and> c \<le> 13) \<or> (28 \<le> c \<and> c \<le> 32) \<or> c = 133 \<or> c = 160 \<or> c = 5760 \<or>
     (8192 \<le> c \<and> c \<le> 8202) \<or> c = 8232 \<or> c = 8233 \<or> c = 8239 \<or> c = 8287 \<or> c = 12288"

definition py_strip :: "ustr \<Rightarrow> ustr" where
  "py_strip s = rev (dropWhile is_space (rev (dropWhile is_space s)))"

text \<open>
  \<open>widget.get('1.0', tk.END)\<close> of a Tk text widget returns the content followed by the
  newline Tk keeps at the end of every text widget.
\<close>

definition tk_get :: "ustr \<Rightarrow> ustr" where
  "tk_get content = content @ [10]"

text \<open>A Python exception, with its message.\<close>

datatype exn = Exception string

section \<open>The translator object as the shell sees it\<close>

text \<open>
  \<open>core.translator.Translator\<close> is not among the files at hand. The shell reads
  \<open>translator.providers\<close> and reads and writes \<open>translator.current_provider_index\<close>;
  everything else the object holds is the opaque component \<open>internals\<close>.
\<close>

record provider =
  p_name :: string
  p_model :: string

record 'i translator =
  providers :: "provider list"
  current_provider_index :: int
  internals :: 'i

text \<open>
  What the shell's own code does to the outside world, oldest first: its calls of the
  translator's methods, the keyboard, the clipboard, the files and the pop-up windows.
  What a method of the translator does inside is not recorded.
\<close>

text \<open>
  The texts of \<open>show_error_popup\<close>: "the translator is not initialised", "reading the
  clipboard failed", "no text is selected" and "translation failed".
\<close>

datatype popup_msg =
    PopNotInitialised
  | PopClipboardFailed exn
  | PopNoSelection
  | PopTranslateFailed exn

datatype effect =
    SetDirection string string
  | DetectAndSet ustr
  | TranslateText ustr
  | KeySend
  | ClipboardRead
  | ClipboardWrite ustr
  | SaveLog ustr ustr
  | SavePreference string
  | ErrorPopup popup_msg
  | ResultPopup ustr ustr string nat

fun is_translator_call :: "effect \<Rightarrow> bool" where
  "is_translator_call (SetDirection s t) = True"
| "is_translator_call (DetectAndSet x) = True"
| "is_translator_call (TranslateText x) = True"
| "is_translator_call e = False"

text \<open>The directions a trace asked the translator to set, oldest first.\<close>

fun direction_calls :: "effect list \<Rightarrow> (string \<times> string) list" where
  "direction_calls [] = []"
| "direction_calls (SetDirection s t # es) = (s, t) # direction_calls es"
| "direction_calls (e # es) = direction_calls es"

text \<open>The module's globals \<open>translator\<close> and \<open>is_translating\<close>, and the trace.\<close>

record 'i app =
  translator :: "'i translator option"
  is_translating :: bool
  effects :: "effect list"

text \<open>
  The methods of the absent classes and the libraries, as parameters. A method of the
  translator returns the translator as the call left it and either a value or the
  exception it raised.
\<close>

record 'i env =
  detect_source_language :: "ustr \<Rightarrow> string"
  set_translation_direction :: "string \<Rightarrow> string \<Rightarrow> 'i translator \<Rightarrow> 'i translator \<times> exn option"
  detect_and_set_direction :: "ustr \<Rightarrow> 'i translator \<Rightarrow> 'i translator \<times> (exn + string \<times> string)"
  translate_text :: "ustr \<Rightarrow> 'i translator \<Rightarrow> 'i translator \<times> (exn + ustr)"
  current_model :: "'i translator \<Rightarrow> string"
  last_usage :: "'i translator \<Rightarrow> nat option"
  clipboard_paste :: "exn + ustr"
  clipboard_copy :: "ustr \<Rightarrow> bool"
  popup_show :: "exn option"

section \<open>The manual translation window\<close>

text \<open>
  The status line shows one of these messages (the source's texts are Korean; the
  language names it looks up in \<open>lang_names\<close> are kept as the codes): the opening
  hint, "enter the source text", "the translator is not initialised", "translating
  (source to target)", "translation failed" with the exception, the result line (source,
  target, characters, tokens, model name, whether the copy to the clipboard worked; the
  elapsed time is left out), "translation model set" with the label, and "copied".
\<close>

datatype status =
    StReady
  | StEnterSource
  | StNotInitialised
  | StTranslating string string
  | StFailed exn
  | StDone string string nat nat string bool
  | StModelSet string
  | StCopied

datatype arrow = ArrowRight | ArrowBoth

record window =
  target_lang_var :: string
  model_list :: "string list"
  combo_current :: int
  status_label :: status
  original_text :: ustr
  translated_text :: ustr
  has_translation :: bool
  arrow_btn :: arrow

text \<open>\<open>do_translate\<close>, re-translation mode: the translation moves to the source pane.\<close>

definition retranslate_move :: "window \<Rightarrow> window" where
  "retranslate_move w =
     (if has_translation w then
        (let translated = py_strip (tk_get (translated_text w)) in
         if translated \<noteq> [] then
           w\<lparr>original_text := translated, translated_text := [],
             has_translation := False, arrow_btn := ArrowRight\<rparr>
         else w)
      else w)"

text \<open>
  \<open>do_translate\<close>, the direction: the detected source with \<open>unknown\<close> read as English,
  the target, and the value the radio variable \<open>target_lang_var\<close> has afterwards.
\<close>

definition resolve_direction :: "(ustr \<Rightarrow> string) \<Rightarrow> ustr \<Rightarrow> string \<Rightarrow> string \<times> string \<times> string" where
  "resolve_direction detect txt selected =
     (let source0 = detect txt;
          source = (if source0 = ''unknown'' then ''en'' else source0)
      in if source = ''ko'' then (source, ''ja'', ''ja'')
         else if source = ''ja'' \<or> source = ''en'' then (source, ''ko'', ''ko'')
         else (source, selected, selected))"

text \<open>\<open>translator.current_model.split(':')[-1]\<close>.\<close>

definition model_part :: "string \<Rightarrow> string" where
  "model_part label = rev (takeWhile (\<lambda>c. c \<noteq> CHR '':'') (rev label))"

text \<open>\<open>do_translate\<close> after a translation has come back.\<close>

definition show_translation ::
  "'i env \<Rightarrow> string \<Rightarrow> string \<Rightarrow> ustr \<Rightarrow> ustr \<Rightarrow> 'i translator \<Rightarrow> window \<times> 'i app \<Rightarrow> window \<times> 'i app" where
  "show_translation e source target txt translated t wa =
     (case wa of (w, a) \<Rightarrow>
        (let token_count = (case last_usage e t of None \<Rightarrow> 0 | Some n \<Rightarrow> n);
             model_name = model_part (current_model e t);
             copied = clipboard_copy e translated
         in (w\<lparr>translated_text := translated,
               status_label := StDone source target (length txt) token_count model_name copied,
               has_translation := True, arrow_btn := ArrowBoth\<rparr>,
             a\<lparr>translator := Some t,
               effects := effects a @ [ClipboardWrite translated, SaveLog txt translated]\<rparr>)))"

text \<open>The text \<open>do_translate\<close> reads from the source pane once the move is done.\<close>

definition manual_input :: "window \<Rightarrow> ustr" where
  "manual_input w = py_strip (tk_get (original_text (retranslate_move w)))"

text \<open>
  \<open>ManualTranslationWindow.do_translate\<close>. An exception of
  \<open>set_translation_direction\<close> leaves the handler; one of \<open>translate_text\<close> is caught
  and shown in the status line.
\<close>

definition manual_do_translate :: "'i env \<Rightarrow> window \<times> 'i app \<Rightarrow> (window \<times> 'i app) \<times> exn option" where
  "manual_do_translate e wa =
     (case wa of (w0, a) \<Rightarrow>
        (let w = retranslate_move w0;
             txt = manual_input w0
         in if txt = [] then ((w\<lparr>status_label := StEnterSource\<rparr>, a), None)
            else (case translator a of
              None \<Rightarrow> ((w\<lparr>status_label := StNotInitialised\<rparr>, a), None)
            | Some t \<Rightarrow>
                (case resolve_direction (detect_source_language e) txt (target_lang_var w) of
                   (source, target, tvar) \<Rightarrow>
                     (let w1 = w\<lparr>target_lang_var := tvar\<rparr>;
                          a1 = a\<lparr>effects := effects a @ [SetDirection source target]\<rparr>
                      in case set_translation_direction e source target t of
                           (t1, Some x) \<Rightarrow> ((w1, a1\<lparr>translator := Some t1\<rparr>), Some x)
                         | (t1, None) \<Rightarrow>
                             (let w2 = w1\<lparr>status_label := StTranslating source target\<rparr>;
                                  a2 = a1\<lparr>translator := Some t1,
                                          effects := effects a1 @ [TranslateText txt]\<rparr>
                              in case translate_text e txt t1 of
                                   (t2, Inl x) \<Rightarrow>
                                     ((w2\<lparr>status_label := StFailed x\<rparr>,
                                       a2\<lparr>translator := Some t2\<rparr>), None)
                                 | (t2, Inr translated) \<Rightarrow>
                                     (show_translation e source target txt translated t2 (w2, a2),
                                      None)))))))"

section \<open>Choosing the model in the manual window\<close>

text \<open>\<open>_get_model_list\<close>: the labels \<open>name:model\<close> of the translator's providers.\<close>

definition model_label :: "provider \<Rightarrow> string" where
  "model_label p = p_name p @ '':'' @ p_model p"

definition get_model_list :: "'i app \<Rightarrow> string list" where
  "get_model_list a = (case translator a of None \<Rightarrow> [] | Some t \<Rightarrow> map model_label (providers t))"

text \<open>\<open>list.index\<close> of an element the list holds: the position of its first occurrence.\<close>

fun index_of :: "'a \<Rightarrow> 'a list \<Rightarrow> nat" where
  "index_of x [] = 0"
| "index_of x (y # ys) = (if x = y then 0 else Suc (index_of x ys))"

text \<open>
  \<open>ManualTranslationWindow.__init__\<close>, the part that fills the window's state and applies
  the saved preference; \<open>preferred\<close> is what \<open>load_model_preference()\<close> returned. A
  combobox with nothing selected has \<open>current() = -1\<close>.
\<close>

definition window_init :: "string \<Rightarrow> 'i app \<Rightarrow> window \<times> 'i app" where
  "window_init preferred a =
     (let models = get_model_list a;
          default_idx = (if preferred \<noteq> [] \<and> preferred \<in> set models
                         then int (index_of preferred models) else 0);
          w = \<lparr>target_lang_var = ''ko'', model_list = models,
               combo_current = (if models \<noteq> [] then default_idx else - 1),
               status_label = StReady, original_text = [], translated_text = [],
               has_translation = False, arrow_btn = ArrowRight\<rparr>
      in if models \<noteq> [] then
           (case translator a of
              None \<Rightarrow> (w, a)
            | Some t \<Rightarrow>
                if default_idx < int (length (providers t))
                then (w, a\<lparr>translator := Some (t\<lparr>current_provider_index := default_idx\<rparr>)\<rparr>)
                else (w, a))
         else (w, a))"

text \<open>\<open>_on_model_change\<close> and \<open>_on_model_confirm\<close>: neither has a path that raises.\<close>

definition on_model_change :: "window \<times> 'i app \<Rightarrow> (window \<times> 'i app) \<times> exn option" where
  "on_model_change wa =
     (case wa of (w, a) \<Rightarrow>
        (case translator a of
           None \<Rightarrow> ((w, a), None)
         | Some t \<Rightarrow>
             (let selected_idx = combo_current w in
              if selected_idx \<ge> 0 \<and> selected_idx < int (length (providers t))
              then ((w, a\<lparr>translator := Some (t\<lparr>current_provider_index := selected_idx\<rparr>)\<rparr>), None)
              else ((w, a), None))))"

definition on_model_confirm :: "'i env \<Rightarrow> window \<times> 'i app \<Rightarrow> (window \<times> 'i app) \<times> exn option" where
  "on_model_confirm e wa =
     (case wa of (w, a) \<Rightarrow>
        (case translator a of
           None \<Rightarrow> ((w, a), None)
         | Some t \<Rightarrow>
             (let selected_idx = combo_current w in
              if selected_idx \<ge> 0 \<and> selected_idx < int (length (providers t))
              then (let t1 = t\<lparr>current_provider_index := selected_idx\<rparr>;
                        model_name = current_model e t1
                    in ((w\<lparr>status_label := StModelSet model_name\<rparr>,
                         a\<lparr>translator := Some t1,
                           effects := effects a @ [SavePreference model_name]\<rparr>), None))
              else ((w, a), None))))"

text \<open>The active index points into the provider list.\<close>

definition index_valid :: "'i translator \<Rightarrow> bool" where
  "index_valid t \<longleftrightarrow>
     0 \<le> current_provider_index t \<and> current_provider_index t < int (length (providers t))"

definition app_index_valid :: "'i app \<Rightarrow> bool" where
  "app_index_valid a = (case translator a of None \<Rightarrow> False | Some t \<Rightarrow> index_valid t)"

definition app_providers :: "'i app \<Rightarrow> provider list" where
  "app_providers a = (case translator a of None \<Rightarrow> [] | Some t \<Rightarrow> providers t)"

section \<open>The hotkey translation\<close>

text \<open>
  The body of the global \<open>do_translate\<close> under \<open>try\<close>: the state it leaves and the
  exception that leaves it, if any. The two calls outside every \<open>except\<close> clause are
  \<open>detect_and_set_direction\<close> and the result pop-up.
\<close>

definition log_effects :: "effect list \<Rightarrow> 'i app \<Rightarrow> 'i app" where
  "log_effects es a = a\<lparr>effects := effects a @ es\<rparr>"

definition hotkey_body :: "'i env \<Rightarrow> 'i app \<Rightarrow> 'i app \<times> exn option" where
  "hotkey_body e a =
     (case translator a of
        None \<Rightarrow> (log_effects [ErrorPopup PopNotInitialised] a, None)
      | Some t \<Rightarrow>
          (let a1 = log_effects [KeySend, ClipboardRead] a in
           case clipboard_paste e of
             Inl x \<Rightarrow> (log_effects [ErrorPopup (PopClipboardFailed x)] a1, None)
           | Inr pasted \<Rightarrow>
               if pasted = [] \<or> py_strip pasted = []
               then (log_effects [ErrorPopup PopNoSelection] a1, None)
               else
                 (let txt = py_strip pasted;
                      a2 = log_effects [DetectAndSet txt] a1
                  in case detect_and_set_direction e txt t of
                       (t1, Inl x) \<Rightarrow> (a2\<lparr>translator := Some t1\<rparr>, Some x)
                     | (t1, Inr direction) \<Rightarrow>
                         (let a3 = log_effects [TranslateText txt] (a2\<lparr>translator := Some t1\<rparr>)
                          in case translate_text e txt t1 of
                               (t2, Inl x) \<Rightarrow>
                                 (log_effects [ErrorPopup (PopTranslateFailed x)]
                                    (a3\<lparr>translator := Some t2\<rparr>), None)
                             | (t2, Inr translated) \<Rightarrow>
                                 (let token_count = (case last_usage e t2 of None \<Rightarrow> 0 | Some n \<Rightarrow> n)
                                  in (log_effects
                                        [ClipboardWrite translated, SaveLog txt translated,
                                         ResultPopup txt translated (current_model e t2) token_count]
                                        (a3\<lparr>translator := Some t2\<rparr>),
                                      popup_show e))))))"

text \<open>The guard \<open>is_translating\<close> around the body, and the \<open>finally\<close> clause.\<close>

definition hotkey_do_translate :: "'i env \<Rightarrow> 'i app \<Rightarrow> 'i app \<times> exn option" where
  "hotkey_do_translate e a =
     (if is_translating a then (a, None)
      else (case hotkey_body e (a\<lparr>is_translating := True\<rparr>) of
              (a1, raised) \<Rightarrow> (a1\<lparr>is_translating := False\<rparr>, raised)))"

section \<open>Initialisation\<close>

text \<open>
  A provider entry of \<open>config.json\<close>; \<open>api_key\<close> is \<open>None\<close> when the entry has no such
  key (the code reads it with the default \<open>""\<close>). The \<open>api\<close> section either has a
  \<open>providers\<close> array or is the older form with one \<open>api_key\<close>; a configuration with
  no \<open>api\<close> section reads as the older form with no key.
\<close>

record provider_cfg =
  cfg_name :: string
  cfg_model :: string
  api_key :: "string option"

datatype api_config = ProvidersFormat "provider_cfg list" | LegacyFormat "string option"

definition key_or_empty :: "string option \<Rightarrow> string" where
  "key_or_empty k = (case k of None \<Rightarrow> [] | Some s \<Rightarrow> s)"

definition provider_placeholders :: "string list" where
  "provider_placeholders = [''YOUR_API_KEY_HERE'', ''YOUR_OPENAI_API_KEY'', ''YOUR_ANTHROPIC_API_KEY'']"

text \<open>The loop over the providers, which stops at the first usable key.\<close>

fun any_valid_key :: "provider_cfg list \<Rightarrow> bool" where
  "any_valid_key [] = False"
| "any_valid_key (p # ps) =
     (let k = key_or_empty (api_key p) in
      if k \<noteq> [] \<and> k \<notin> set provider_placeholders then True else any_valid_key ps)"

definition has_valid_key :: "api_config \<Rightarrow> bool" where
  "has_valid_key c =
     (case c of
        ProvidersFormat ps \<Rightarrow> any_valid_key ps
      | LegacyFormat k \<Rightarrow> key_or_empty k \<noteq> [] \<and> key_or_empty k \<noteq> ''YOUR_API_KEY_HERE'')"

text \<open>
  What \<open>init_translator\<close> finds outside: whether \<open>config.json\<close> exists, what
  \<open>load_config\<close> returns, what the constructor \<open>Translator(config, ...)\<close> returns, and
  what loading the dictionary and the system prompt into the new translator does.
\<close>

record ('c, 'i) init_env =
  config_exists :: bool
  load_config :: "exn + 'c"
  api_of :: "'c \<Rightarrow> api_config"
  construct :: "'c \<Rightarrow> exn + 'i translator"
  load_prompts :: "'c \<Rightarrow> 'i translator \<Rightarrow> 'i translator \<times> exn option"

datatype init_msg =
    MsgNoConfigFile
  | MsgConfigLoadFailed exn
  | MsgSetApiKey
  | MsgInitFailed exn
  | MsgOK

text \<open>
  \<open>init_translator\<close>: the global \<open>translator\<close> afterwards, and the pair it returns or
  the exception that leaves it.
\<close>

definition init_translator ::
  "('c, 'i) init_env \<Rightarrow> 'i translator option \<Rightarrow> 'i translator option \<times> (exn + bool \<times> init_msg)" where
  "init_translator ie g =
     (if \<not> config_exists ie then (g, Inr (False, MsgNoConfigFile))
      else (case load_config ie of
        Inl x \<Rightarrow> (g, Inr (False, MsgConfigLoadFailed x))
      | Inr c \<Rightarrow>
          if \<not> has_valid_key (api_of ie c) then (g, Inr (False, MsgSetApiKey))
          else (case construct ie c of
            Inl x \<Rightarrow> (g, Inr (False, MsgInitFailed x))
          | Inr t \<Rightarrow>
              (case load_prompts ie c t of
                 (t1, Some x) \<Rightarrow> (Some t1, Inl x)
               | (t1, None) \<Rightarrow> (Some t1, Inr (True, MsgOK))))))"

section \<open>The hotkey translation as two threads see it\<close>

text \<open>
  \<open>on_hotkey\<close> starts a new thread running \<open>do_translate\<close> for every press of the
  hotkey, so two invocations can be under way at once. A thread is at one of these places
  of \<open>do_translate\<close>: before the test of the guard (line 702), between the test and the
  assignment \<open>is_translating = True\<close> (line 704), inside the \<open>try\<close> block (lines
  706 to 758), at the \<open>finally\<close> clause (line 760), or returned. It carries the
  exception that is leaving the function, if any. One step of a thread runs the code
  between two places; the body runs as one step.
\<close>

datatype pc = AtTest | AtSet | AtBody | AtFinally | Returned

type_synonym thread = "pc \<times> exn option"

definition thread_step :: "'i env \<Rightarrow> thread \<Rightarrow> 'i app \<Rightarrow> thread \<times> 'i app" where
  "thread_step e th a =
     (case th of (place, raised) \<Rightarrow>
        (case place of
           AtTest \<Rightarrow> (if is_translating a then ((Returned, raised), a) else ((AtSet, raised), a))
         | AtSet \<Rightarrow> ((AtBody, raised), a\<lparr>is_translating := True\<rparr>)
         | AtBody \<Rightarrow> (case hotkey_body e a of (a1, x) \<Rightarrow> ((AtFinally, x), a1))
         | AtFinally \<Rightarrow> ((Returned, raised), a\<lparr>is_translating := False\<rparr>)
         | Returned \<Rightarrow> ((Returned, raised), a)))"

text \<open>
  The threads share the module's globals. A schedule names the thread that takes the
  next step, one entry per step.
\<close>

definition schedule_step :: "'i env \<Rightarrow> thread list \<times> 'i app \<Rightarrow> nat \<Rightarrow> thread list \<times> 'i app" where
  "schedule_step e st i =
     (case st of (ths, a) \<Rightarrow>
        if i < length ths
        then (case thread_step e (ths ! i) a of (th1, a1) \<Rightarrow> (ths[i := th1], a1))
        else (ths, a))"

definition run_schedule :: "'i env \<Rightarrow> nat list \<Rightarrow> thread list \<times> 'i app \<Rightarrow> thread list \<times> 'i app" where
  "run_schedule e schedule st = foldl (schedule_step e) st schedule"

text \<open>A translation is in flight in every thread that is past the assignment and not yet past \<open>finally\<close>.\<close>

definition in_flight :: "thread list \<Rightarrow> nat" where
  "in_flight ths = length (filter (\<lambda>th. fst th = AtBody \<or> fst th = AtFinally) ths)"

section \<open>The detector, the direction resolver, the pool and the engine of the specification\<close>

text \<open>
  Modelled from the spec: the languages of a direction and the result of the detector
  (sections 3 and 4.1: \<open>detect(text) -> {ko, ja, en, unknown}\<close>, total). The detector
  itself is \<open>core.file_handler.detect_source_language\<close>, which is not among the files
  at hand; its thresholds are not in the spec, so it stays a parameter of this type.
\<close>

datatype lang = Ko | Ja | En | Unknown

fun lang_code :: "lang \<Rightarrow> string" where
  "lang_code Ko = ''ko''"
| "lang_code Ja = ''ja''"
| "lang_code En = ''en''"
| "lang_code Unknown = ''unknown''"

text \<open>
  Modelled from the spec: \<open>resolveAuto\<close> and \<open>setExplicit\<close> of the direction resolver
  (section 4.2), the work of \<open>core/translator.py\<close>, which is not among the files at
  hand. \<open>setExplicit\<close> returns \<open>None\<close> when it rejects the pair.
\<close>

definition resolveAuto :: "(ustr \<Rightarrow> lang) \<Rightarrow> ustr \<Rightarrow> lang \<times> lang" where
  "resolveAuto detector tx =
     (let detected = detector tx;
          source = (if detected = Unknown then En else detected)
      in if source = Ko then (Ko, Ja) else (source, Ko))"

definition setExplicit :: "lang \<times> lang \<Rightarrow> (lang \<times> lang) option" where
  "setExplicit d = (if snd d = Unknown then None else Some d)"

text \<open>
  Modelled from the spec: the provider pool (\<open>advance\<close>) and the engine's \<open>translate\<close>
  (sections 4.4 and 4.5), also the work of the absent \<open>core/translator.py\<close>. The
  collaborators are parameters: the detector, the dictionary's pre-substitution that
  builds the payload for a direction (step 3), and the providers' answers to a request
  (a direction and a payload), by the provider's position: \<open>None\<close> is a provider
  failure, \<open>Some (out, tokens)\<close> the translated text and the usage. \<open>attempts\<close> counts
  the calls made to providers, and \<open>switch_events\<close> holds the \<open>SwitchEvent\<close>s emitted,
  oldest first.
\<close>

record pool =
  labels :: "string list"
  activeIndex :: nat
  current_direction :: "(lang \<times> lang) option"
  attempts :: nat
  last_tokens :: nat
  switch_events :: "(string \<times> string \<times> string) list"

record services =
  sv_detect :: "ustr \<Rightarrow> lang"
  sv_payload :: "lang \<times> lang \<Rightarrow> ustr \<Rightarrow> ustr"
  sv_call :: "nat \<Rightarrow> (lang \<times> lang) \<times> ustr \<Rightarrow> (ustr \<times> nat) option"

datatype engine_result = Translated ustr nat | EmptyInput | InvalidDirection | AllProvidersFailed

definition advance :: "pool \<Rightarrow> bool \<times> pool" where
  "advance p =
     (if Suc (activeIndex p) < length (labels p)
      then (True, p\<lparr>activeIndex := Suc (activeIndex p),
                     switch_events := switch_events p @
                       [(labels p ! activeIndex p, labels p ! Suc (activeIndex p), ''failover'')]\<rparr>)
      else (False, p))"

text \<open>Step 4: one attempt on the active provider, failover, and the same again.\<close>

function attempt_loop :: "(nat \<Rightarrow> 'r \<Rightarrow> (ustr \<times> nat) option) \<Rightarrow> 'r \<Rightarrow> pool \<Rightarrow> pool \<times> engine_result" where
  "attempt_loop call request p =
     (let p1 = p\<lparr>attempts := Suc (attempts p)\<rparr> in
      case call (activeIndex p1) request of
        Some (out, tokens) \<Rightarrow> (p1\<lparr>last_tokens := tokens\<rparr>, Translated out tokens)
      | None \<Rightarrow>
          (case advance p1 of
             (advanced, p2) \<Rightarrow>
               if advanced then attempt_loop call request p2 else (p2, AllProvidersFailed)))"
  by pat_completeness auto
termination
  by (relation "measure (\<lambda>(call, request, p). length (labels p) - activeIndex p)")
     (auto simp: advance_def split: if_splits)

text \<open>What a caller may pass as direction: none, or a pair whose target is not \<open>unknown\<close>.\<close>

definition direction_accepted :: "(lang \<times> lang) option \<Rightarrow> bool" where
  "direction_accepted direction = (case direction of None \<Rightarrow> True | Some d \<Rightarrow> snd d \<noteq> Unknown)"

text \<open>
  Steps 1 to 5 of \<open>translate(text, direction?)\<close>: the blank text is rejected first, then
  the direction is resolved or the given one is checked and stored, then the payload is
  built and the providers are tried.
\<close>

definition translate :: "services \<Rightarrow> ustr \<Rightarrow> (lang \<times> lang) option \<Rightarrow> pool \<Rightarrow> pool \<times> engine_result" where
  "translate sv tx direction p =
     (if py_strip tx = [] then (p, EmptyInput)
      else (case (case direction of
                    None \<Rightarrow> Some (resolveAuto (sv_detect sv) tx)
                  | Some d \<Rightarrow> setExplicit d) of
              None \<Rightarrow> (p, InvalidDirection)
            | Some d \<Rightarrow>
                attempt_loop (sv_call sv) (d, sv_payload sv d tx) (p\<lparr>current_direction := Some d\<rparr>)))"

section \<open>The credential rule in the specification's words\<close>

text \<open>
  A credential is unconfigured when it is empty or one of the known placeholders; the
  credentials of a configuration are those of its providers, the older form having one.
\<close>

definition unconfigured :: "string \<Rightarrow> bool" where
  "unconfigured k \<longleftrightarrow> k = [] \<or> k \<in> set provider_placeholders"

definition credentials :: "api_config \<Rightarrow> string list" where
  "credentials c =
     (case c of
        ProvidersFormat ps \<Rightarrow> map (\<lambda>p. key_or_empty (api_key p)) ps
      | LegacyFormat k \<Rightarrow> [key_or_empty k])"

section \<open>A small concrete installation\<close>

text \<open>
  Two providers, a detector that knows three sample texts, and a translator whose methods
  succeed: the inputs at which the statements below are evaluated.
\<close>

definition sample_translator :: "unit translator" where
  "sample_translator =
     \<lparr>providers = [\<lparr>p_name = ''gemini'', p_model = ''flash''\<rparr>,
                   \<lparr>p_name = ''openai'', p_model = ''gpt''\<rparr>],
      current_provider_index = 0, internals = ()\<rparr>"

definition sample_app :: "unit app" where
  "sample_app = \<lparr>translator = Some sample_translator, is_translating = False, effects = []\<rparr>"

definition sample_detect :: "ustr \<Rightarrow> string" where
  "sample_detect s =
     (if s = [54620] then ''ko'' else if s = [12354] then ''ja''
      else if s = [104, 105] then ''en'' else ''unknown'')"

definition sample_env :: "unit env" where
  "sample_env =
     \<lparr>detect_source_language = sample_detect,
      set_translation_direction = (\<lambda>s t tr. (tr, None)),
      detect_and_set_direction = (\<lambda>txt tr. (tr, Inr (''ko'', ''ja''))),
      translate_text = (\<lambda>txt tr. (tr, Inr [12354])),
      current_model = (\<lambda>tr. model_label (providers tr ! nat (current_provider_index tr))),
      last_usage = (\<lambda>tr. Some 7),
      clipboard_paste = Inr [32, 10],
      clipboard_copy = (\<lambda>txt. True),
      popup_show = None\<rparr>"

definition sample_window :: window where
  "sample_window = (fst (window_init [] sample_app))\<lparr>original_text := [54620]\<rparr>"

text \<open>
  A pool of two providers, fresh and after an earlier call has left it at the second
  provider, and collaborators with a detector that reads everything as English.
\<close>

definition sample_pool :: pool where
  "sample_pool =
     \<lparr>labels = [''gemini:flash'', ''openai:gpt''], activeIndex = 0, current_direction = None,
      attempts = 0, last_tokens = 0, switch_events = []\<rparr>"

definition sample_pool_at_second :: pool where
  "sample_pool_at_second = sample_pool\<lparr>activeIndex := 1\<rparr>"

definition all_fail :: "nat \<Rightarrow> (lang \<times> lang) \<times> ustr \<Rightarrow> (ustr \<times> nat) option" where
  "all_fail i request = None"

definition second_answers :: "nat \<Rightarrow> (lang \<times> lang) \<times> ustr \<Rightarrow> (ustr \<times> nat) option" where
  "second_answers i request = (if i = 1 then Some ([50504], 7) else None)"

definition sample_services :: "(nat \<Rightarrow> (lang \<times> lang) \<times> ustr \<Rightarrow> (ustr \<times> nat) option) \<Rightarrow> services" where
  "sample_services answers =
     \<lparr>sv_detect = (\<lambda>tx. En), sv_payload = (\<lambda>d tx. tx), sv_call = answers\<rparr>"

section \<open>Whitespace\<close>

lemma py_strip_empty_iff: "py_strip s = [] \<longleftrightarrow> list_all is_space s"
proof (cases "dropWhile is_space s = []")
  case True
  have "py_strip s = []" unfolding py_strip_def True by simp
  moreover have "list_all is_space s" using True by (simp add: list_all_iff)
  ultimately show ?thesis by simp
next
  case False
  then have "\<not> is_space (hd (dropWhile is_space s))"
    by (rule hd_dropWhile)
  with False have "\<exists>x\<in>set (dropWhile is_space s). \<not> is_space x"
    by (cases "dropWhile is_space s") auto
  then have "py_strip s \<noteq> []"
    by (simp add: py_strip_def)
  moreover have "\<not> list_all is_space s" using False by (simp add: list_all_iff)
  ultimately show ?thesis by simp
qed

lemma is_space_newline: "is_space 10"
  by (simp add: is_space_def)

lemma py_strip_tk_get_empty_iff: "py_strip (tk_get s) = [] \<longleftrightarrow> list_all is_space s"
  by (simp add: py_strip_empty_iff tk_get_def is_space_newline)

lemma py_strip_fixed:
  assumes "s \<noteq> []" "\<not> is_space (hd s)" "\<not> is_space (last s)"
  shows "py_strip (tk_get s) = s"
proof -
  obtain x xs where s: "s = x # xs" using assms(1) by (cases s) auto
  have "rev s \<noteq> []" using assms(1) by simp
  then obtain y ys where r: "rev s = y # ys" by (cases "rev s") auto
  have "hd (rev s) = last s" using assms(1) by (simp add: hd_rev)
  then have y: "\<not> is_space y" using r assms(3) by simp
  have "dropWhile is_space (s @ [10]) = s @ [10]" using s assms(2) by simp
  moreover have "dropWhile is_space (10 # rev s) = rev s"
    unfolding r using y by (simp add: is_space_newline)
  ultimately show ?thesis by (simp add: py_strip_def tk_get_def)
qed

lemma py_strip_ends:
  assumes "py_strip s \<noteq> []"
  shows "\<not> is_space (hd (py_strip s))" "\<not> is_space (last (py_strip s))"
proof -
  let ?d = "dropWhile is_space s"
  let ?e = "dropWhile is_space (rev ?d)"
  have e: "?e \<noteq> []" using assms unfolding py_strip_def by simp
  then have "\<not> is_space (hd ?e)" by (rule hd_dropWhile)
  then show "\<not> is_space (last (py_strip s))" using e unfolding py_strip_def by (simp add: last_rev)
  have d: "?d \<noteq> []" using e by (metis dropWhile.simps(1) rev.simps(1))
  then have hd: "\<not> is_space (hd ?d)" by (rule hd_dropWhile)
  have "rev ?d = takeWhile is_space (rev ?d) @ ?e" by simp
  then have "rev (rev ?d) = rev (takeWhile is_space (rev ?d) @ ?e)" by (rule arg_cong)
  then have "?d = rev ?e @ rev (takeWhile is_space (rev ?d))"
    by (simp only: rev_append rev_rev_ident)
  then have "hd ?d = hd (rev ?e @ rev (takeWhile is_space (rev ?d)))" by (rule arg_cong)
  also have "\<dots> = hd (rev ?e)" using e by (simp only: hd_append2 rev_is_Nil_conv not_False_eq_True)
  finally show "\<not> is_space (hd (py_strip s))" using hd unfolding py_strip_def by simp
qed

lemma py_strip_tk_get_idem: "py_strip s \<noteq> [] \<Longrightarrow> py_strip (tk_get (py_strip s)) = py_strip s"
  by (rule py_strip_fixed) (simp_all add: py_strip_ends)

lemma py_strip_tk_get: "py_strip (tk_get s) = py_strip s"
proof (cases "list_all is_space s")
  case True
  then have "py_strip (tk_get s) = []"
    by (simp add: py_strip_tk_get_empty_iff)
  moreover from True have "py_strip s = []"
    by (simp add: py_strip_empty_iff)
  ultimately show ?thesis
    by simp
next
  case False
  then have d: "dropWhile is_space (s @ [10]) = dropWhile is_space s @ [10]"
    by (auto simp: dropWhile_append list_all_iff)
  show ?thesis
    by (simp add: py_strip_def tk_get_def d is_space_newline)
qed

section \<open>The direction the manual window resolves\<close>

lemma direction_calls_append: "direction_calls (xs @ ys) = direction_calls xs @ direction_calls ys"
  by (induction xs rule: direction_calls.induct) simp_all

lemma resolve_direction_ko:
  "detect txt = ''ko'' \<Longrightarrow> resolve_direction detect txt sel = (''ko'', ''ja'', ''ja'')"
  by (simp add: resolve_direction_def)

lemma resolve_direction_ja:
  "detect txt = ''ja'' \<Longrightarrow> resolve_direction detect txt sel = (''ja'', ''ko'', ''ko'')"
  by (simp add: resolve_direction_def)

lemma resolve_direction_en:
  "detect txt = ''en'' \<or> detect txt = ''unknown'' \<Longrightarrow>
   resolve_direction detect txt sel = (''en'', ''ko'', ''ko'')"
  by (auto simp add: resolve_direction_def)

lemma manual_direction_calls:
  assumes "translator a = Some t" and "manual_input w \<noteq> []"
    and "resolve_direction (detect_source_language e) (manual_input w) (target_lang_var (retranslate_move w)) = (source, target, tv)"
  shows "direction_calls (effects (snd (fst (manual_do_translate e (w, a))))) =
           direction_calls (effects a) @ [(source, target)]"
    and "target_lang_var (fst (fst (manual_do_translate e (w, a)))) = tv"
  using assms
  by (auto simp add: manual_do_translate_def show_translation_def Let_def direction_calls_append
        split: prod.splits option.splits sum.splits)

lemma sample_window_eq:
  "sample_window = \<lparr>target_lang_var = ''ko'', model_list = [''gemini:flash'', ''openai:gpt''],
               combo_current = 0,
               status_label = StReady, original_text = [54620], translated_text = [],
               has_translation = False, arrow_btn = ArrowRight\<rparr>"
  by (simp add: sample_window_def window_init_def get_model_list_def sample_app_def
      sample_translator_def model_label_def)

lemma sample_input: "manual_input sample_window = [54620]"
  by (simp add: sample_window_eq manual_input_def retranslate_move_def py_strip_def tk_get_def is_space_def)

text \<open>
  C1. For every text the manual window translates (a translator is there and the text is
  not blank), \<open>do_translate\<close> asks the detector for the source language and makes exactly
  one \<open>set_translation_direction\<close> call: with \<open>(ko, ja)\<close> when the detector says
  \<open>ko\<close>, with \<open>(ja, ko)\<close> when it says \<open>ja\<close>, and with \<open>(en, ko)\<close> when it says
  \<open>en\<close> or \<open>unknown\<close> (\<open>unknown\<close> is read as \<open>en\<close>). The radio variable is set to the
  target.
\<close>

theorem manual_auto_direction:
  assumes "translator a = Some t" and "manual_input w \<noteq> []"
    and "d = detect_source_language e (manual_input w)"
    and "a' = snd (fst (manual_do_translate e (w, a)))"
    and "w' = fst (fst (manual_do_translate e (w, a)))"
  shows "(d = ''ko'' \<longrightarrow>
            direction_calls (effects a') = direction_calls (effects a) @ [(''ko'', ''ja'')] \<and>
            target_lang_var w' = ''ja'') \<and>
         (d = ''ja'' \<longrightarrow>
            direction_calls (effects a') = direction_calls (effects a) @ [(''ja'', ''ko'')] \<and>
            target_lang_var w' = ''ko'') \<and>
         (d = ''en'' \<or> d = ''unknown'' \<longrightarrow>
            direction_calls (effects a') = direction_calls (effects a) @ [(''en'', ''ko'')] \<and>
            target_lang_var w' = ''ko'')"
  using assms manual_direction_calls[OF assms(1,2) resolve_direction_ko]
     manual_direction_calls[OF assms(1,2) resolve_direction_ja]
     manual_direction_calls[OF assms(1,2) resolve_direction_en]
  by auto

theorem manual_auto_direction_witness:
  "direction_calls (effects (snd (fst (manual_do_translate sample_env (sample_window, sample_app)))))
     = [(''ko'', ''ja'')] \<and>
   target_lang_var (fst (fst (manual_do_translate sample_env (sample_window, sample_app)))) = ''ja''"
  using manual_auto_direction[of sample_app sample_translator sample_window "''ko''" sample_env,
          OF _ _ _ refl refl]
  by (simp add: sample_input sample_app_def sample_env_def sample_detect_def)

text \<open>
  The branch that reads the user's selection is taken for any code the detector returns
  other than the four below, and only then.
\<close>

lemma resolve_direction_other:
  "detect txt \<notin> {''ko'', ''ja'', ''en'', ''unknown''} \<Longrightarrow>
   resolve_direction detect txt sel = (detect txt, sel, sel)"
  by (simp add: resolve_direction_def)

lemma resolve_direction_known:
  "detect txt \<in> {''ko'', ''ja'', ''en'', ''unknown''} \<Longrightarrow>
   resolve_direction detect txt sel1 = resolve_direction detect txt sel2"
  by (auto simp: resolve_direction_def)

lemma lang_code_known: "lang_code l \<in> {''ko'', ''ja'', ''en'', ''unknown''}"
  by (cases l) simp_all

lemma manual_input_selection: "manual_input (w\<lparr>target_lang_var := s\<rparr>) = manual_input w"
  by (simp add: manual_input_def retranslate_move_def Let_def)

lemma retranslate_move_selection: "target_lang_var (retranslate_move (w\<lparr>target_lang_var := s\<rparr>)) = s"
  by (simp add: retranslate_move_def Let_def)

text \<open>
  C10. In manual translation the resolved direction does not depend on the target the
  user has selected. The detector is not among the files, so its result is taken as the
  specification gives it: one of \<open>ko\<close>, \<open>ja\<close>, \<open>en\<close>, \<open>unknown\<close>. For every such
  detector, every text and any two selections, the source, the target and the radio value
  are the same, and \<open>do_translate\<close> leaves the same translator and the same trace and
  raises the same.
\<close>

theorem direction_independent_of_selection:
  "resolve_direction (\<lambda>tx. lang_code (d tx)) txt sel1 =
     resolve_direction (\<lambda>tx. lang_code (d tx)) txt sel2 \<and>
   snd (fst (manual_do_translate (e\<lparr>detect_source_language := (\<lambda>tx. lang_code (d tx))\<rparr>)
               (w\<lparr>target_lang_var := sel1\<rparr>, a))) =
   snd (fst (manual_do_translate (e\<lparr>detect_source_language := (\<lambda>tx. lang_code (d tx))\<rparr>)
               (w\<lparr>target_lang_var := sel2\<rparr>, a))) \<and>
   snd (manual_do_translate (e\<lparr>detect_source_language := (\<lambda>tx. lang_code (d tx))\<rparr>)
          (w\<lparr>target_lang_var := sel1\<rparr>, a)) =
   snd (manual_do_translate (e\<lparr>detect_source_language := (\<lambda>tx. lang_code (d tx))\<rparr>)
          (w\<lparr>target_lang_var := sel2\<rparr>, a))"
proof -
  have r: "resolve_direction (\<lambda>tx. lang_code (d tx)) t sel1 =
           resolve_direction (\<lambda>tx. lang_code (d tx)) t sel2" for t
    by (rule resolve_direction_known) (rule lang_code_known)
  show ?thesis
    by (simp add: manual_do_translate_def manual_input_selection retranslate_move_selection r
        show_translation_def Let_def split: prod.splits option.splits sum.splits)
qed

theorem direction_independent_of_selection_witness:
  "resolve_direction (\<lambda>tx. lang_code Ja) [12354] ''en'' = (''ja'', ''ko'', ''ko'') \<and>
   resolve_direction (\<lambda>tx. lang_code Ja) [12354] ''ja'' = (''ja'', ''ko'', ''ko'') \<and>
   snd (fst (manual_do_translate (sample_env\<lparr>detect_source_language := (\<lambda>tx. lang_code Ja)\<rparr>)
               (sample_window\<lparr>target_lang_var := ''en''\<rparr>, sample_app))) =
   snd (fst (manual_do_translate (sample_env\<lparr>detect_source_language := (\<lambda>tx. lang_code Ja)\<rparr>)
               (sample_window\<lparr>target_lang_var := ''ja''\<rparr>, sample_app)))"
  using direction_independent_of_selection[of "\<lambda>tx. Ja" "[12354]" "''en''" "''ja''"
      sample_env sample_window sample_app]
  by (simp add: resolve_direction_def)

lemma manual_success:
  assumes "translator a = Some t" and "manual_input w \<noteq> []"
    and "resolve_direction (detect_source_language e) (manual_input w)
           (target_lang_var (retranslate_move w)) = (source, target, tv)"
    and "set_translation_direction e source target t = (t1, None)"
    and "translate_text e (manual_input w) t1 = (t2, Inr r)"
  shows "translator (snd (fst (manual_do_translate e (w, a)))) = Some t2"
    and "has_translation (fst (fst (manual_do_translate e (w, a))))"
    and "translated_text (fst (fst (manual_do_translate e (w, a)))) = r"
    and "snd (manual_do_translate e (w, a)) = None"
  using assms
  by (simp_all add: manual_do_translate_def show_translation_def Let_def)

lemma manual_input_after_translation:
  assumes "has_translation w" and "py_strip (tk_get (translated_text w)) \<noteq> []"
  shows "manual_input w = py_strip (tk_get (translated_text w))"
  using assms
  by (simp add: manual_input_def retranslate_move_def Let_def py_strip_tk_get_idem)

text \<open>
  C8. Round trip: a text detected as \<open>ko\<close> is translated with direction \<open>(ko, ja)\<close>;
  pressing translate again moves the result to the source pane, and when the detector reads
  that result as \<open>ja\<close> the direction asked for is \<open>(ja, ko)\<close>: the target is back at
  \<open>ko\<close>, also in the radio variable.
\<close>

theorem round_trip_direction:
  assumes "translator a = Some t" and "manual_input w \<noteq> []"
    and "detect_source_language e (manual_input w) = ''ko''"
    and "set_translation_direction e ''ko'' ''ja'' t = (t1, None)"
    and "translate_text e (manual_input w) t1 = (t2, Inr r)"
    and "py_strip r \<noteq> []"
    and "detect_source_language e (py_strip r) = ''ja''"
    and "first = fst (manual_do_translate e (w, a))"
    and "second = fst (manual_do_translate e first)"
  shows "direction_calls (effects (snd first)) = direction_calls (effects a) @ [(''ko'', ''ja'')] \<and>
         direction_calls (effects (snd second)) =
           direction_calls (effects a) @ [(''ko'', ''ja''), (''ja'', ''ko'')] \<and>
         target_lang_var (fst second) = ''ko''"
proof -
  obtain w1 a1 where f: "fst (manual_do_translate e (w, a)) = (w1, a1)"
    by (cases "fst (manual_do_translate e (w, a))")
  have ff: "first = (w1, a1)"
    using f assms(8) by simp
  have r1: "resolve_direction (detect_source_language e) (manual_input w)
           (target_lang_var (retranslate_move w)) = (''ko'', ''ja'', ''ja'')"
    using assms(3) by (rule resolve_direction_ko)
  have d1: "direction_calls (effects a1) = direction_calls (effects a) @ [(''ko'', ''ja'')]"
    using manual_direction_calls(1)[OF assms(1,2) r1] f by simp
  have t1: "translator a1 = Some t2"
    using manual_success(1)[OF assms(1,2) r1 assms(4,5)] f by simp
  have h1: "has_translation w1"
    using manual_success(2)[OF assms(1,2) r1 assms(4,5)] f by simp
  have x1: "translated_text w1 = r"
    using manual_success(3)[OF assms(1,2) r1 assms(4,5)] f by simp
  have i1: "manual_input w1 = py_strip r"
    using manual_input_after_translation[of w1] h1 x1 assms(6) by (simp add: py_strip_tk_get)
  have n1: "manual_input w1 \<noteq> []"
    using i1 assms(6) by simp
  have r2: "resolve_direction (detect_source_language e) (manual_input w1)
           (target_lang_var (retranslate_move w1)) = (''ja'', ''ko'', ''ko'')"
    using assms(7) i1 by (simp add: resolve_direction_ja)
  have d2: "direction_calls (effects (snd second)) = direction_calls (effects a1) @ [(''ja'', ''ko'')]"
    using manual_direction_calls(1)[OF t1 n1 r2] assms(9) ff by simp
  have v2: "target_lang_var (fst second) = ''ko''"
    using manual_direction_calls(2)[OF t1 n1 r2] assms(9) ff by simp
  show ?thesis
    using d1 d2 v2 ff by simp
qed

theorem round_trip_direction_witness:
  "direction_calls (effects (snd (fst (manual_do_translate sample_env
      (fst (manual_do_translate sample_env (sample_window, sample_app))))))) =
     [(''ko'', ''ja''), (''ja'', ''ko'')] \<and>
   target_lang_var (fst (fst (manual_do_translate sample_env
      (fst (manual_do_translate sample_env (sample_window, sample_app)))))) = ''ko''"
proof -
  have s: "py_strip [12354] = [12354]"
    by (simp add: py_strip_def is_space_def)
  show ?thesis
    using round_trip_direction[of sample_app sample_translator sample_window sample_env
        sample_translator sample_translator "[12354]", OF _ _ _ _ _ _ _ refl refl]
    by (simp add: s sample_input sample_app_def sample_env_def sample_detect_def)
qed

section \<open>Blank input\<close>

lemma manual_input_empty_iff:
  "manual_input w = [] \<longleftrightarrow>
     list_all is_space (original_text w) \<and>
     (has_translation w \<longrightarrow> list_all is_space (translated_text w))"
proof (cases "has_translation w \<and> py_strip (tk_get (translated_text w)) \<noteq> []")
  case True
  then have "manual_input w = py_strip (tk_get (translated_text w))"
    by (simp add: manual_input_def retranslate_move_def Let_def py_strip_tk_get_idem)
  with True show ?thesis
    by (simp add: py_strip_tk_get_empty_iff)
next
  case False
  then have "retranslate_move w = w"
    by (auto simp: retranslate_move_def Let_def)
  with False show ?thesis
    by (auto simp: manual_input_def py_strip_tk_get_empty_iff)
qed

lemma retranslate_move_blank:
  "has_translation w \<longrightarrow> list_all is_space (translated_text w) \<Longrightarrow> retranslate_move w = w"
  by (auto simp: retranslate_move_def Let_def py_strip_tk_get_empty_iff)

text \<open>
  C3. A text that is empty or all whitespace is rejected before the translator is touched.
  In the manual window (with no earlier translation waiting to be translated back, which
  would be the input instead) \<open>do_translate\<close> only sets the status line to the
  enter-a-text message: the translator, its active index and the trace are as before, so
  no direction is set and no provider is tried. The hotkey \<open>do_translate\<close> with such a
  text on the clipboard leaves the translator and the guard as they were, makes no call
  of the translator and raises nothing; when it gets as far as reading the clipboard it
  shows the nothing-selected pop-up.
\<close>

theorem blank_input_rejected:
  assumes "list_all is_space txt"
  shows "(original_text w = txt \<and> (has_translation w \<longrightarrow> list_all is_space (translated_text w)) \<longrightarrow>
            manual_do_translate e (w, a) = ((w\<lparr>status_label := StEnterSource\<rparr>, a), None)) \<and>
         (clipboard_paste e = Inr txt \<longrightarrow>
            translator (fst (hotkey_do_translate e b)) = translator b \<and>
            filter is_translator_call (effects (fst (hotkey_do_translate e b))) =
              filter is_translator_call (effects b) \<and>
            is_translating (fst (hotkey_do_translate e b)) = is_translating b \<and>
            snd (hotkey_do_translate e b) = None) \<and>
         (clipboard_paste e = Inr txt \<and> \<not> is_translating b \<and> translator b \<noteq> None \<longrightarrow>
            hotkey_do_translate e b =
              (log_effects [KeySend, ClipboardRead, ErrorPopup PopNoSelection] b, None))"
proof (intro conjI impI)
  assume h: "original_text w = txt \<and> (has_translation w \<longrightarrow> list_all is_space (translated_text w))"
  then have "manual_input w = []"
    using assms by (simp add: manual_input_empty_iff)
  moreover have "retranslate_move w = w"
    using h by (simp add: retranslate_move_blank)
  ultimately show "manual_do_translate e (w, a) = ((w\<lparr>status_label := StEnterSource\<rparr>, a), None)"
    by (simp add: manual_do_translate_def)
next
  assume p: "clipboard_paste e = Inr txt"
  have s: "py_strip txt = []"
    using assms by (simp add: py_strip_empty_iff)
  have body: "hotkey_body e c =
      (case translator c of
         None \<Rightarrow> (log_effects [ErrorPopup PopNotInitialised] c, None)
       | Some t \<Rightarrow> (log_effects [ErrorPopup PopNoSelection] (log_effects [KeySend, ClipboardRead] c), None))" for c
    by (simp add: hotkey_body_def p s Let_def split: option.splits)
  show "translator (fst (hotkey_do_translate e b)) = translator b"
    by (simp add: hotkey_do_translate_def body log_effects_def split: option.splits)
  show "filter is_translator_call (effects (fst (hotkey_do_translate e b))) =
              filter is_translator_call (effects b)"
    by (simp add: hotkey_do_translate_def body log_effects_def split: option.splits)
  show "is_translating (fst (hotkey_do_translate e b)) = is_translating b"
    by (simp add: hotkey_do_translate_def body log_effects_def split: option.splits)
  show "snd (hotkey_do_translate e b) = None"
    by (simp add: hotkey_do_translate_def body log_effects_def split: option.splits)
next
  assume p: "clipboard_paste e = Inr txt \<and> \<not> is_translating b \<and> translator b \<noteq> None"
  have s: "py_strip txt = []"
    using assms by (simp add: py_strip_empty_iff)
  from p obtain t where t: "translator b = Some t" by auto
  show "hotkey_do_translate e b =
              (log_effects [KeySend, ClipboardRead, ErrorPopup PopNoSelection] b, None)"
    using p by (simp add: hotkey_do_translate_def hotkey_body_def t s Let_def log_effects_def)
qed

theorem blank_input_rejected_witness:
  "manual_do_translate sample_env (sample_window\<lparr>original_text := [32, 10]\<rparr>, sample_app) =
     ((sample_window\<lparr>original_text := [32, 10], status_label := StEnterSource\<rparr>, sample_app), None) \<and>
   hotkey_do_translate sample_env sample_app =
     (log_effects [KeySend, ClipboardRead, ErrorPopup PopNoSelection] sample_app, None)"
  using blank_input_rejected[of "[32, 10]" "sample_window\<lparr>original_text := [32, 10]\<rparr>" sample_env sample_app sample_app]
  by (simp add: sample_window_eq sample_env_def sample_app_def is_space_def)

section \<open>The guard of the hotkey translation\<close>

lemma hotkey_body_keeps_guard: "is_translating (fst (hotkey_body e c)) = is_translating c"
  by (simp add: hotkey_body_def log_effects_def Let_def split: option.splits sum.splits prod.splits)

lemma hotkey_guard_sequential:
  "(is_translating a \<longrightarrow> hotkey_do_translate e a = (a, None)) \<and>
   (\<not> is_translating a \<longrightarrow>
      \<not> is_translating (fst (hotkey_do_translate e a)) \<and>
      hotkey_do_translate e a =
        ((fst (hotkey_body e (a\<lparr>is_translating := True\<rparr>)))\<lparr>is_translating := False\<rparr>,
         snd (hotkey_body e (a\<lparr>is_translating := True\<rparr>))))"
  by (simp add: hotkey_do_translate_def split: prod.splits)

lemma one_thread_alone:
  "run_schedule e [0, 0, 0, 0] ([(AtTest, None)], a) =
     ([(Returned, snd (hotkey_do_translate e a))], fst (hotkey_do_translate e a))"
  by (simp add: run_schedule_def schedule_step_def thread_step_def hotkey_do_translate_def
      split: prod.splits)

lemma second_thread_waits:
  "run_schedule e [0, 0, 1] ([(AtTest, None), (AtTest, None)], a\<lparr>is_translating := False\<rparr>) =
     ([(AtBody, None), (Returned, None)], a\<lparr>is_translating := True\<rparr>)"
  by (simp add: run_schedule_def schedule_step_def thread_step_def)

text \<open>
  C9. Within one thread the guard works: an invocation that finds \<open>is_translating\<close> set
  returns at once with nothing changed, and one that finds it clear has cleared it again
  on every way out (\<open>hotkey_guard_sequential\<close>); a second thread that tests the guard
  after the first has set it returns at once (\<open>second_thread_waits\<close>). But the test
  and the assignment are two steps with no lock between them. When two threads started by
  two presses of the hotkey both test the guard before either sets it, both enter the
  body: two translations are in flight. When the first of them leaves, it clears the
  guard while the second is still in flight, so a third press would start as well.
\<close>

theorem hotkey_guard_race:
  "run_schedule e [0, 1, 0, 1] ([(AtTest, None), (AtTest, None)], a\<lparr>is_translating := False\<rparr>) =
     ([(AtBody, None), (AtBody, None)], a\<lparr>is_translating := True\<rparr>) \<and>
   in_flight (fst (run_schedule e [0, 1, 0, 1]
     ([(AtTest, None), (AtTest, None)], a\<lparr>is_translating := False\<rparr>))) = 2 \<and>
   \<not> is_translating (snd (run_schedule e [0, 1, 0, 1, 0, 0]
     ([(AtTest, None), (AtTest, None)], a\<lparr>is_translating := False\<rparr>))) \<and>
   in_flight (fst (run_schedule e [0, 1, 0, 1, 0, 0]
     ([(AtTest, None), (AtTest, None)], a\<lparr>is_translating := False\<rparr>))) = 1"
  by (simp add: run_schedule_def schedule_step_def thread_step_def in_flight_def
      hotkey_body_keeps_guard split: prod.splits)

section \<open>The credential check of the initialisation\<close>

lemma any_valid_key_iff:
  "any_valid_key ps \<longleftrightarrow> \<not> list_all unconfigured (map (\<lambda>p. key_or_empty (api_key p)) ps)"
  by (induction ps) (auto simp: unconfigured_def Let_def)

lemma has_valid_key_providers:
  "has_valid_key (ProvidersFormat ps) \<longleftrightarrow> \<not> list_all unconfigured (credentials (ProvidersFormat ps))"
  by (simp add: has_valid_key_def credentials_def any_valid_key_iff)

lemma providers_form_check:
  "init_translator
     (ie\<lparr>config_exists := True, load_config := Inr c, api_of := (\<lambda>c. ProvidersFormat ps)\<rparr>) g =
     (if list_all unconfigured (credentials (ProvidersFormat ps))
      then (g, Inr (False, MsgSetApiKey))
      else (case construct ie c of
              Inl x \<Rightarrow> (g, Inr (False, MsgInitFailed x))
            | Inr t \<Rightarrow>
                (case load_prompts ie c t of
                   (t1, Some x) \<Rightarrow> (Some t1, Inl x)
                 | (t1, None) \<Rightarrow> (Some t1, Inr (True, MsgOK)))))"
  by (simp add: init_translator_def has_valid_key_providers split: sum.splits prod.splits option.splits)


section \<open>Selecting a model\<close>

lemma index_of_less: "x \<in> set xs \<Longrightarrow> index_of x xs < length xs"
  by (induction xs) auto

lemma window_init_valid:
  assumes "translator a = Some t" and "providers t \<noteq> []"
  shows "app_index_valid (snd (window_init preferred a))"
    and "app_providers (snd (window_init preferred a)) = providers t"
proof -
  let ?models = "map model_label (providers t)"
  have m: "get_model_list a = ?models"
    using assms by (simp add: get_model_list_def)
  have "preferred \<in> set ?models \<Longrightarrow> index_of preferred ?models < length (providers t)"
    using index_of_less[of preferred ?models] by simp
  then show "app_index_valid (snd (window_init preferred a))"
    using assms
    by (auto simp: window_init_def m Let_def app_index_valid_def index_valid_def)
  show "app_providers (snd (window_init preferred a)) = providers t"
    using assms
    by (auto simp: window_init_def m Let_def app_providers_def)
qed

text \<open>
  C5. With a translator whose active index is valid (so its provider list is not empty),
  each operation of the window that writes the index leaves it valid and the provider
  list as it was: applying the saved preference when the window is built, the combobox
  change, and the confirmation of the model.
\<close>

theorem index_stays_valid:
  assumes "translator a = Some t" and "index_valid t"
  shows "app_index_valid (snd (window_init preferred a)) \<and>
         app_providers (snd (window_init preferred a)) = providers t \<and>
         app_index_valid (snd (fst (on_model_change (w, a)))) \<and>
         app_providers (snd (fst (on_model_change (w, a)))) = providers t \<and>
         app_index_valid (snd (fst (on_model_confirm e (w, a)))) \<and>
         app_providers (snd (fst (on_model_confirm e (w, a)))) = providers t"
proof -
  have ne: "providers t \<noteq> []"
    using assms(2) by (auto simp: index_valid_def)
  show ?thesis
    using assms window_init_valid[OF assms(1) ne, of preferred]
    by (auto simp: on_model_change_def on_model_confirm_def Let_def app_index_valid_def
        index_valid_def app_providers_def)
qed

theorem index_stays_valid_witness:
  "app_index_valid (snd (window_init ''openai:gpt'' sample_app)) \<and>
   translator (snd (window_init ''openai:gpt'' sample_app)) =
     Some (sample_translator\<lparr>current_provider_index := 1\<rparr>) \<and>
   app_index_valid (snd (fst (on_model_change (sample_window\<lparr>combo_current := 1\<rparr>, sample_app)))) \<and>
   app_index_valid (snd (fst (on_model_confirm sample_env (sample_window\<lparr>combo_current := 5\<rparr>, sample_app))))"
  using index_stays_valid[of sample_app sample_translator "''openai:gpt''"
      "sample_window\<lparr>combo_current := 1\<rparr>" sample_env]
    index_stays_valid[of sample_app sample_translator "''openai:gpt''"
      "sample_window\<lparr>combo_current := 5\<rparr>" sample_env]
  by (simp add: sample_app_def sample_translator_def index_valid_def window_init_def
      get_model_list_def model_label_def)

text \<open>
  C6, as the code has it. An index outside the provider list (the combobox's \<open>-1\<close> for
  no selection, or one past the end) is ignored by both selection handlers: the active
  index, the rest of the translator, the trace and the status line are unchanged, and
  the handler returns without raising or reporting anything.
\<close>

theorem out_of_range_selection_ignored:
  assumes "translator a = Some t"
    and "combo_current w < 0 \<or> int (length (providers t)) \<le> combo_current w"
  shows "on_model_confirm e (w, a) = ((w, a), None) \<and> on_model_change (w, a) = ((w, a), None)"
  using assms by (auto simp: on_model_confirm_def on_model_change_def)

theorem out_of_range_selection_ignored_witness:
  "on_model_confirm sample_env (sample_window\<lparr>combo_current := 2\<rparr>, sample_app) =
     ((sample_window\<lparr>combo_current := 2\<rparr>, sample_app), None) \<and>
   on_model_change (sample_window\<lparr>combo_current := 2\<rparr>, sample_app) =
     ((sample_window\<lparr>combo_current := 2\<rparr>, sample_app), None)"
  using out_of_range_selection_ignored[of sample_app sample_translator
      "sample_window\<lparr>combo_current := 2\<rparr>" sample_env]
  by (simp add: sample_app_def sample_translator_def)

text \<open>
  The claim as stated asks for a failure \<open>OutOfRange\<close>; at the index \<open>-1\<close> the handler
  returns normally, the status line still shows the ready message and nothing was done.
\<close>

theorem out_of_range_selection_counterexample:
  "snd (on_model_confirm sample_env (sample_window\<lparr>combo_current := - 1\<rparr>, sample_app)) = None \<and>
   status_label (fst (fst (on_model_confirm sample_env (sample_window\<lparr>combo_current := - 1\<rparr>, sample_app))))
     = StReady \<and>
   effects (snd (fst (on_model_confirm sample_env (sample_window\<lparr>combo_current := - 1\<rparr>, sample_app))))
     = []"
  by (simp add: on_model_confirm_def sample_app_def sample_translator_def sample_window_eq)

section \<open>Failover in the specification's pool\<close>

declare attempt_loop.simps [simp del]

lemma advance_last: "Suc (activeIndex p) = length (labels p) \<Longrightarrow> advance p = (False, p)"
  by (simp add: advance_def)

lemma advance_next:
  "Suc (activeIndex p) < length (labels p) \<Longrightarrow>
   fst (advance p) \<and> activeIndex (snd (advance p)) = Suc (activeIndex p) \<and>
   labels (snd (advance p)) = labels p \<and> attempts (snd (advance p)) = attempts p"
  by (simp add: advance_def)

lemma attempt_loop_facts:
  "activeIndex p < length (labels p) \<Longrightarrow> attempt_loop call request p = (p', r) \<Longrightarrow>
     labels p' = labels p \<and> activeIndex p \<le> activeIndex p' \<and> activeIndex p' < length (labels p) \<and>
     attempts p' = attempts p + (activeIndex p' - activeIndex p) + 1 \<and>
     length (switch_events p') = length (switch_events p) + (activeIndex p' - activeIndex p) \<and>
     (r = AllProvidersFailed \<longrightarrow> Suc (activeIndex p') = length (labels p)) \<and>
     (r = AllProvidersFailed \<or> (\<exists>out tokens. r = Translated out tokens \<and>
        call (activeIndex p') request = Some (out, tokens) \<and> last_tokens p' = tokens))"
proof (induction call request p arbitrary: p' r rule: attempt_loop.induct)
  case (1 call request p)
  let ?p1 = "p\<lparr>attempts := Suc (attempts p)\<rparr>"
  show ?case
  proof (cases "call (activeIndex p) request")
    case (Some a)
    then show ?thesis
      using "1.prems" by (cases a) (auto simp: attempt_loop.simps[of call request p] Let_def)
  next
    case None
    show ?thesis
    proof (cases "Suc (activeIndex p) < length (labels p)")
      case True
      obtain p2 where adv: "advance ?p1 = (True, p2)"
        using True by (simp add: advance_def)
      have rec: "attempt_loop call request p2 = (p', r)"
        using "1.prems"(2) None adv
        by (simp add: attempt_loop.simps[of call request p] Let_def)
      have p2: "activeIndex p2 = Suc (activeIndex p)" "labels p2 = labels p"
        "attempts p2 = Suc (attempts p)"
        "length (switch_events p2) = Suc (length (switch_events p))"
        using True adv by (auto simp: advance_def)
      have "activeIndex p2 < length (labels p2)"
        using True p2 by simp
      from "1.IH"[OF refl _ adv[symmetric] _ this rec] None
      show ?thesis
        using p2 by auto
    next
      case False
      then have "advance ?p1 = (False, ?p1)"
        by (simp add: advance_def)
      then show ?thesis
        using "1.prems" None False
        by (auto simp: attempt_loop.simps[of call request p] Let_def)
    qed
  qed
qed

lemma translate_rejected_direction:
  "py_strip tx \<noteq> [] \<Longrightarrow> \<not> direction_accepted direction \<Longrightarrow>
   translate sv tx direction p = (p, InvalidDirection)"
  by (auto simp: translate_def direction_accepted_def setExplicit_def split: option.splits)

lemma translate_accepted_direction:
  assumes "py_strip tx \<noteq> []" and "direction_accepted direction"
  shows "\<exists>d. translate sv tx direction p =
           attempt_loop (sv_call sv) (d, sv_payload sv d tx) (p\<lparr>current_direction := Some d\<rparr>)"
proof (cases direction)
  case None
  then have "translate sv tx direction p =
      attempt_loop (sv_call sv) (resolveAuto (sv_detect sv) tx, sv_payload sv (resolveAuto (sv_detect sv) tx) tx)
        (p\<lparr>current_direction := Some (resolveAuto (sv_detect sv) tx)\<rparr>)"
    using assms by (simp add: translate_def)
  then show ?thesis ..
next
  case (Some d)
  then have "translate sv tx direction p =
      attempt_loop (sv_call sv) (d, sv_payload sv d tx) (p\<lparr>current_direction := Some d\<rparr>)"
    using assms by (simp add: translate_def direction_accepted_def setExplicit_def)
  then show ?thesis ..
qed

text \<open>
  C2, as the specification's own steps have it. Take a pool of \<open>N\<close> providers whose
  active index is valid and a text that is not blank. A \<open>translate\<close> call with a
  direction whose target is \<open>unknown\<close> fails with \<open>InvalidDirection\<close> and leaves the
  pool alone. Any other call either succeeds or fails with \<open>AllProvidersFailed\<close>. It
  fails after exactly \<open>N - activeIndex\<close> attempts (\<open>N\<close> when it starts at the first
  provider) and leaves the index at the last provider; it makes at least one attempt and
  never more than \<open>N\<close>; the index only moves forward, one provider and one
  \<open>SwitchEvent\<close> per failed attempt that is followed by another, and stays inside the
  pool. \<open>advance\<close> at the last provider returns false and changes nothing; elsewhere it
  returns true and moves the index by one.
\<close>

theorem failover_attempts:
  assumes "activeIndex p < length (labels p)" and "py_strip tx \<noteq> []"
    and "translate sv tx direction p = (p', r)"
  shows "(\<not> direction_accepted direction \<longrightarrow> r = InvalidDirection \<and> p' = p) \<and>
         (direction_accepted direction \<longrightarrow>
            (r = AllProvidersFailed \<or> (\<exists>out tokens. r = Translated out tokens)) \<and>
            (r = AllProvidersFailed \<longrightarrow>
               attempts p' - attempts p = length (labels p) - activeIndex p \<and>
               Suc (activeIndex p') = length (labels p)) \<and>
            (activeIndex p = 0 \<and> r = AllProvidersFailed \<longrightarrow>
               attempts p' - attempts p = length (labels p)) \<and>
            1 \<le> attempts p' - attempts p \<and>
            attempts p' - attempts p \<le> length (labels p) - activeIndex p \<and>
            attempts p' - attempts p \<le> length (labels p) \<and>
            activeIndex p \<le> activeIndex p' \<and> activeIndex p' < length (labels p) \<and>
            attempts p' - attempts p = Suc (activeIndex p' - activeIndex p) \<and>
            length (switch_events p') - length (switch_events p) = activeIndex p' - activeIndex p) \<and>
         (Suc (activeIndex q) = length (labels q) \<longrightarrow> advance q = (False, q)) \<and>
         (Suc (activeIndex q) < length (labels q) \<longrightarrow>
            fst (advance q) \<and> activeIndex (snd (advance q)) = Suc (activeIndex q))"
proof (cases "direction_accepted direction")
  case False
  then show ?thesis
    using translate_rejected_direction[OF assms(2) False, of sv p] assms(3)
      advance_last[of q] advance_next[of q]
    by auto
next
  case True
  obtain d where d: "translate sv tx direction p =
      attempt_loop (sv_call sv) (d, sv_payload sv d tx) (p\<lparr>current_direction := Some d\<rparr>)"
    using translate_accepted_direction[OF assms(2) True] by blast
  have i: "activeIndex (p\<lparr>current_direction := Some d\<rparr>) < length (labels (p\<lparr>current_direction := Some d\<rparr>))"
    using assms(1) by simp
  have l: "attempt_loop (sv_call sv) (d, sv_payload sv d tx) (p\<lparr>current_direction := Some d\<rparr>) = (p', r)"
    using d assms(3) by simp
  from attempt_loop_facts[OF i l] True show ?thesis
    using advance_last[of q] advance_next[of q] by auto
qed

lemma sample_text: "py_strip [104, 105] \<noteq> []"
  by (simp add: py_strip_def is_space_def)

lemma sample_first_attempt:
  "call 0 request = None \<Longrightarrow>
   attempt_loop call request (sample_pool\<lparr>current_direction := Some d\<rparr>) =
   attempt_loop call request
     (sample_pool\<lparr>activeIndex := Suc 0, current_direction := Some d, attempts := Suc 0,
        switch_events := [(''gemini:flash'', ''openai:gpt'', ''failover'')]\<rparr>)"
  by (subst attempt_loop.simps) (simp add: sample_pool_def advance_def)

lemma sample_run_all_fail:
  "translate (sample_services all_fail) [104, 105] None sample_pool =
     (sample_pool\<lparr>activeIndex := Suc 0, current_direction := Some (En, Ko), attempts := Suc (Suc 0),
        switch_events := [(''gemini:flash'', ''openai:gpt'', ''failover'')]\<rparr>, AllProvidersFailed)"
proof -
  have "translate (sample_services all_fail) [104, 105] None sample_pool =
      attempt_loop all_fail ((En, Ko), [104, 105])
        (sample_pool\<lparr>current_direction := Some (En, Ko)\<rparr>)"
    using sample_text by (simp add: translate_def sample_services_def resolveAuto_def)
  also have "\<dots> = attempt_loop all_fail ((En, Ko), [104, 105])
        (sample_pool\<lparr>activeIndex := Suc 0, current_direction := Some (En, Ko), attempts := Suc 0,
           switch_events := [(''gemini:flash'', ''openai:gpt'', ''failover'')]\<rparr>)"
    by (rule sample_first_attempt) (simp add: all_fail_def)
  also have "\<dots> = (sample_pool\<lparr>activeIndex := Suc 0, current_direction := Some (En, Ko),
        attempts := Suc (Suc 0),
        switch_events := [(''gemini:flash'', ''openai:gpt'', ''failover'')]\<rparr>, AllProvidersFailed)"
    by (subst attempt_loop.simps) (simp add: sample_pool_def advance_def all_fail_def)
  finally show ?thesis .
qed

lemma sample_run_second_answers:
  "translate (sample_services second_answers) [104, 105] (Some (En, Ko)) sample_pool =
     (sample_pool\<lparr>activeIndex := Suc 0, current_direction := Some (En, Ko), attempts := Suc (Suc 0),
        last_tokens := 7,
        switch_events := [(''gemini:flash'', ''openai:gpt'', ''failover'')]\<rparr>, Translated [50504] 7)"
proof -
  have "translate (sample_services second_answers) [104, 105] (Some (En, Ko)) sample_pool =
      attempt_loop second_answers ((En, Ko), [104, 105]) (sample_pool\<lparr>current_direction := Some (En, Ko)\<rparr>)"
    using sample_text by (simp add: translate_def sample_services_def setExplicit_def)
  also have "\<dots> = attempt_loop second_answers ((En, Ko), [104, 105])
        (sample_pool\<lparr>activeIndex := Suc 0, current_direction := Some (En, Ko), attempts := Suc 0,
           switch_events := [(''gemini:flash'', ''openai:gpt'', ''failover'')]\<rparr>)"
    by (rule sample_first_attempt) (simp add: second_answers_def)
  also have "\<dots> = (sample_pool\<lparr>activeIndex := Suc 0, current_direction := Some (En, Ko),
        attempts := Suc (Suc 0), last_tokens := 7,
        switch_events := [(''gemini:flash'', ''openai:gpt'', ''failover'')]\<rparr>, Translated [50504] 7)"
    by (subst attempt_loop.simps) (simp add: sample_pool_def advance_def second_answers_def)
  finally show ?thesis .
qed

lemma sample_run_from_second:
  "translate (sample_services all_fail) [104, 105] None sample_pool_at_second =
     (sample_pool_at_second\<lparr>current_direction := Some (En, Ko), attempts := Suc 0\<rparr>,
      AllProvidersFailed)"
proof -
  have "translate (sample_services all_fail) [104, 105] None sample_pool_at_second =
      attempt_loop all_fail ((En, Ko), [104, 105])
        (sample_pool_at_second\<lparr>current_direction := Some (En, Ko)\<rparr>)"
    using sample_text by (simp add: translate_def sample_services_def resolveAuto_def)
  also have "\<dots> = (sample_pool_at_second\<lparr>current_direction := Some (En, Ko), attempts := Suc 0\<rparr>,
      AllProvidersFailed)"
    by (subst attempt_loop.simps)
       (simp add: sample_pool_at_second_def sample_pool_def advance_def all_fail_def)
  finally show ?thesis .
qed

lemma sample_run_rejected:
  "translate (sample_services all_fail) [104, 105] (Some (En, Unknown)) sample_pool =
     (sample_pool, InvalidDirection)"
  using sample_text by (simp add: translate_def setExplicit_def)

theorem failover_attempts_witness:
  "snd (translate (sample_services all_fail) [104, 105] None sample_pool) = AllProvidersFailed \<and>
   attempts (fst (translate (sample_services all_fail) [104, 105] None sample_pool)) = 2 \<and>
   activeIndex (fst (translate (sample_services all_fail) [104, 105] None sample_pool)) = 1 \<and>
   switch_events (fst (translate (sample_services all_fail) [104, 105] None sample_pool)) =
     [(''gemini:flash'', ''openai:gpt'', ''failover'')] \<and>
   snd (translate (sample_services second_answers) [104, 105] (Some (En, Ko)) sample_pool) =
     Translated [50504] 7 \<and>
   attempts (fst (translate (sample_services second_answers) [104, 105] (Some (En, Ko)) sample_pool)) = 2 \<and>
   translate (sample_services all_fail) [104, 105] (Some (En, Unknown)) sample_pool =
     (sample_pool, InvalidDirection) \<and>
   advance sample_pool_at_second = (False, sample_pool_at_second) \<and>
   fst (advance sample_pool)"
proof -
  have a: "activeIndex sample_pool < length (labels sample_pool)"
    by (simp add: sample_pool_def)
  have l: "Suc (activeIndex sample_pool_at_second) = length (labels sample_pool_at_second)"
    "Suc (activeIndex sample_pool) < length (labels sample_pool)"
    by (simp_all add: sample_pool_at_second_def sample_pool_def)
  have v: "attempts sample_pool = 0" "activeIndex sample_pool = 0"
    by (simp_all add: sample_pool_def)
  note t1 = failover_attempts[OF a sample_text sample_run_all_fail, of sample_pool_at_second]
  note t2 = failover_attempts[OF a sample_text sample_run_second_answers, of sample_pool]
  note t3 = failover_attempts[OF a sample_text sample_run_rejected, of sample_pool]
  show ?thesis
    unfolding sample_run_all_fail sample_run_second_answers sample_run_rejected
    using t1 t2 t3 l
    by (simp add: v direction_accepted_def sample_pool_def sample_pool_at_second_def advance_def)
qed

text \<open>
  The claim as stated asks for exactly \<open>N\<close> attempts before \<open>AllProvidersFailed\<close>; a
  pool of two providers that an earlier call has left at the second one fails after one.
\<close>

theorem failover_attempts_counterexample:
  "length (labels sample_pool_at_second) = 2 \<and>
   snd (translate (sample_services all_fail) [104, 105] None sample_pool_at_second)
     = AllProvidersFailed \<and>
   attempts (fst (translate (sample_services all_fail) [104, 105] None sample_pool_at_second))
     - attempts sample_pool_at_second = 1"
  unfolding sample_run_from_second
  by (simp add: sample_pool_at_second_def sample_pool_def)

end
